theory Spec2Isabelle
  imports Complex_Main "HOL-Library.List_Lexorder" "HOL-Library.Char_ord"
begin

section \<open>Numbers of the analysis\<close>

text \<open>
  The program computes with numpy float64 values. A value is modelled as a real number or
  one of the three special values of the format. Overflow, subnormal numbers and the sign
  of a zero are not modelled (a zero divisor acts as +0.0, which is what
  \<^verbatim>\<open>Series.std()\<close> and \<^verbatim>\<open>Series.mean()\<close> produce). numpy arithmetic does not raise on a
  division by zero: it yields an infinity or NaN, and every comparison with NaN is False.

  The statistics of a column (sum, mean, standard deviation) and the elementwise
  operations on a column are taken over the reals. The scalar arithmetic behind a printed
  score and behind the balancing threshold is rounded to float64 after every operation,
  as the interpreter does; there a column mean is the real mean rounded once, which is the
  value pandas computes whenever the float64 sum of the column is exact.
\<close>

datatype float64 = Fin real | PInf | NInf | NaN

fun fneg :: "float64 \<Rightarrow> float64" where
  "fneg (Fin a) = Fin (- a)"
| "fneg PInf = NInf"
| "fneg NInf = PInf"
| "fneg NaN = NaN"

fun fadd :: "float64 \<Rightarrow> float64 \<Rightarrow> float64" where
  "fadd NaN _ = NaN"
| "fadd _ NaN = NaN"
| "fadd (Fin a) (Fin b) = Fin (a + b)"
| "fadd PInf NInf = NaN"
| "fadd NInf PInf = NaN"
| "fadd PInf _ = PInf"
| "fadd _ PInf = PInf"
| "fadd NInf _ = NInf"
| "fadd _ NInf = NInf"

definition fsub :: "float64 \<Rightarrow> float64 \<Rightarrow> float64" where
  "fsub a b = fadd a (fneg b)"

text \<open>An infinity times a finite number: the sign of the number decides, zero gives NaN.\<close>

definition scale_inf :: "float64 \<Rightarrow> real \<Rightarrow> float64" where
  "scale_inf i a = (if a = 0 then NaN else if 0 < a then i else fneg i)"

fun fmul :: "float64 \<Rightarrow> float64 \<Rightarrow> float64" where
  "fmul NaN _ = NaN"
| "fmul _ NaN = NaN"
| "fmul (Fin a) (Fin b) = Fin (a * b)"
| "fmul (Fin a) PInf = scale_inf PInf a"
| "fmul (Fin a) NInf = scale_inf NInf a"
| "fmul PInf (Fin b) = scale_inf PInf b"
| "fmul NInf (Fin b) = scale_inf NInf b"
| "fmul PInf PInf = PInf"
| "fmul NInf NInf = PInf"
| "fmul PInf NInf = NInf"
| "fmul NInf PInf = NInf"

fun fdiv :: "float64 \<Rightarrow> float64 \<Rightarrow> float64" where
  "fdiv NaN _ = NaN"
| "fdiv _ NaN = NaN"
| "fdiv (Fin a) (Fin b) =
     (if b = 0 then (if a = 0 then NaN else if 0 < a then PInf else NInf)
      else Fin (a / b))"
| "fdiv (Fin a) _ = Fin 0"
| "fdiv PInf (Fin b) = (if 0 \<le> b then PInf else NInf)"
| "fdiv NInf (Fin b) = (if 0 \<le> b then NInf else PInf)"
| "fdiv _ _ = NaN"

fun fabs :: "float64 \<Rightarrow> float64" where
  "fabs (Fin a) = Fin \<bar>a\<bar>"
| "fabs PInf = PInf"
| "fabs NInf = PInf"
| "fabs NaN = NaN"

text \<open>The comparison \<^verbatim>\<open>a > b\<close>.\<close>

fun fgt :: "float64 \<Rightarrow> float64 \<Rightarrow> bool" where
  "fgt NaN _ = False"
| "fgt _ NaN = False"
| "fgt (Fin a) (Fin b) = (b < a)"
| "fgt PInf PInf = False"
| "fgt PInf _ = True"
| "fgt NInf _ = False"
| "fgt (Fin a) PInf = False"
| "fgt (Fin a) NInf = True"

text \<open>Rounding to the nearest integer, a tie going to the even neighbour.\<close>

definition rint :: "real \<Rightarrow> int" where
  "rint x =
     (let f = \<lfloor>x\<rfloor>; d = x - of_int f
      in if d < 1 / 2 then f else if 1 / 2 < d then f + 1
         else if even f then f else f + 1)"

text \<open>
  The float64 nearest to a real number: with \<open>2 ^ e \<le> \<bar>x\<bar> < 2 ^ (e + 1)\<close> the float64
  numbers around x are the multiples of \<open>2 ^ (e - 52)\<close>, and a tie goes to the even
  multiple. A float literal of the source, such as \<^verbatim>\<open>1.15\<close>, denotes the float64 nearest
  to its decimal value.
\<close>

definition to_float64 :: "real \<Rightarrow> real" where
  "to_float64 x =
     (if x = 0 then 0
      else let u = 2 powr (of_int \<lfloor>log 2 \<bar>x\<bar>\<rfloor> - 52)
           in of_int (rint (x / u)) * u)"

fun rnd :: "float64 \<Rightarrow> float64" where
  "rnd (Fin x) = Fin (to_float64 x)"
| "rnd v = v"

text \<open>
  \<^verbatim>\<open>round(score, 2)\<close> on a numpy float64: the value is multiplied by 100, rounded to the
  nearest integer and divided by 100, each step in float64; the special values round to
  themselves.
\<close>

fun round2 :: "float64 \<Rightarrow> float64" where
  "round2 (Fin x) = Fin (to_float64 (of_int (rint (to_float64 (x * 100))) / 100))"
| "round2 v = v"

text \<open>
  \<^verbatim>\<open>Series.mean()\<close> and \<^verbatim>\<open>Series.std()\<close> (pandas' default \<^verbatim>\<open>ddof=1\<close>) of a column of finite
  values. The mean of an empty column and the standard deviation of fewer than two values
  are NaN; neither raises.
\<close>

definition mean :: "real list \<Rightarrow> float64" where
  "mean xs = (if xs = [] then NaN else Fin (sum_list xs / real (length xs)))"

definition std :: "real list \<Rightarrow> float64" where
  "std xs =
     (if length xs < 2 then NaN
      else let m = sum_list xs / real (length xs)
           in Fin (sqrt (sum_list (map (\<lambda>x. (x - m)\<^sup>2) xs) / real (length xs - 1))))"

text \<open>
  The builtin \<^verbatim>\<open>max\<close> over an iterable: the first item is kept until a later one compares
  greater.
\<close>

fun py_max :: "float64 list \<Rightarrow> float64" where
  "py_max [] = NaN"
| "py_max (x # xs) = foldl (\<lambda>m v. if fgt v m then v else m) x xs"

section \<open>The frame\<close>

text \<open>
  A row of the CSV file after \<^verbatim>\<open>pd.read_csv\<close> and \<^verbatim>\<open>pd.to_datetime\<close>: the timestamp in
  seconds since 1970-01-01 00:00:00 (a Thursday) and the three zone readings, which are
  finite numbers.
\<close>

record reading =
  DateTime :: int
  PowerConsumption_Zone1 :: real
  PowerConsumption_Zone2 :: real
  PowerConsumption_Zone3 :: real

record row = reading +
  Hour :: int
  Weekday :: int
  Day_Type :: string
  Total_Load :: real
  Peak_Type :: string

text \<open>
  The data frame: its rows, and the columns that the analyses add later. A column that has
  not been assigned yet is None.
\<close>

record frame =
  rows :: "row list"
  Wastage_Anomaly :: "bool list option"
  Rolling_7 :: "float64 list option"
  Rolling_30 :: "float64 list option"
  Z_Score :: "float64 list option"
  Stat_Anomaly :: "bool list option"

text \<open>\<^verbatim>\<open>Series.between(left, right)\<close>, inclusive on both sides by default.\<close>

definition between :: "int \<Rightarrow> int \<Rightarrow> int \<Rightarrow> bool" where
  "between h left right = (left \<le> h \<and> h \<le> right)"

definition derive :: "reading \<Rightarrow> row" where
  "derive r =
     (let hour = (DateTime r div 3600) mod 24;
          weekday = (DateTime r div 86400 + 3) mod 7
      in reading.extend r
           (row.fields hour weekday
              (if weekday < 5 then ''Weekday'' else ''Weekend'')
              (PowerConsumption_Zone1 r + PowerConsumption_Zone2 r + PowerConsumption_Zone3 r)
              (if between hour 18 22 then ''Peak'' else ''Off-Peak'')))"

text \<open>
  \<^verbatim>\<open>load_and_preprocess\<close>: sort by timestamp, then add the derived columns. (The order
  in which \<^verbatim>\<open>sort_values\<close> leaves rows of equal timestamp is not fixed by pandas; here they
  keep their order.)
\<close>

definition load_and_preprocess :: "reading list \<Rightarrow> frame" where
  "load_and_preprocess csv =
     \<lparr>rows = map derive (sort_key DateTime csv),
      Wastage_Anomaly = None, Rolling_7 = None, Rolling_30 = None,
      Z_Score = None, Stat_Anomaly = None\<rparr>"

section \<open>What an operation produces\<close>

text \<open>
  An operation of the program either raises or returns. The first four error kinds are
  those the specification names: the source has no \<^verbatim>\<open>raise\<close> statement and its arithmetic
  is numpy's, so no operation raises one of them. The other two are raised inside pandas
  by \<^verbatim>\<open>Series.plot(kind='bar')\<close>: \<^verbatim>\<open>TypeError\<close> (no numeric data to plot) for the series of
  a frame without rows, whose columns are of object dtype, and \<^verbatim>\<open>IndexError\<close> for an
  empty series of numbers. An exception ends the operation and what it would have
  returned is lost. The pyplot calls of the other operations draw whatever they are given
  and are not modelled. What an operation prints is returned as a list of lines
  (pictographs in the messages are left out).
\<close>

datatype error =
    InsufficientDataError
  | DegenerateInputError
  | DivisionByZeroError
  | PrecomputationRequiredError
  | TypeError
  | IndexError

datatype line =
    Text string
  | Count string nat
  | Score string float64
  | Series_by_name "(string \<times> real) list"
  | Series_by_hour "(int \<times> real) list"

text \<open>
  \<^verbatim>\<open>df.groupby(key)['Total_Load'].mean()\<close>: one entry for each key value that occurs, in
  ascending key order. A group has at least one row, so its mean is a finite number.
\<close>

definition groupby_mean :: "(row \<Rightarrow> 'k::linorder) \<Rightarrow> row list \<Rightarrow> ('k \<times> real) list" where
  "groupby_mean key rs =
     map (\<lambda>k. let g = map Total_Load (filter (\<lambda>r. key r = k) rs)
              in (k, sum_list g / real (length g)))
         (sort (remdups (map key rs)))"

section \<open>The analyses\<close>

definition peak_offpeak_analysis :: "frame \<Rightarrow> error + line list" where
  "peak_offpeak_analysis df =
     (let result = groupby_mean Peak_Type (rows df)
      in Inr [Text ''Average Load (Peak vs Off-Peak)'', Series_by_name result])"

text \<open>
  \<^verbatim>\<open>wastage_detection\<close> assigns the column \<^verbatim>\<open>Wastage_Anomaly\<close>, prints the number of flagged
  rows and returns \<^verbatim>\<open>mean_load, std_load\<close>.
\<close>

definition wastage_detection :: "frame \<Rightarrow> error + (frame \<times> line list \<times> float64 \<times> float64)" where
  "wastage_detection df =
     (let mean_load = mean (map Total_Load (rows df));
          std_load = std (map Total_Load (rows df));
          flags = map (\<lambda>r. fgt (Fin (Total_Load r)) (fadd mean_load (fmul (Fin 2) std_load)))
                      (rows df)
      in Inr (df\<lparr>Wastage_Anomaly := Some flags\<rparr>,
              [Count ''Total Wastage Events:'' (length (filter id flags))],
              mean_load, std_load))"

text \<open>
  \<^verbatim>\<open>Series.rolling(k).mean()\<close>: the entry at index i is NaN until k values are available
  and the mean of the k values ending at i from then on.
\<close>

definition rolling_mean :: "nat \<Rightarrow> real list \<Rightarrow> float64 list" where
  "rolling_mean k xs =
     map (\<lambda>i. if i + 1 < k then NaN else mean (take k (drop (i + 1 - k) xs)))
         [0..<length xs]"

definition rolling_trend :: "frame \<Rightarrow> error + frame" where
  "rolling_trend df =
     Inr (df\<lparr>Rolling_7 := Some (rolling_mean 7 (map Total_Load (rows df))),
             Rolling_30 := Some (rolling_mean 30 (map Total_Load (rows df)))\<rparr>)"

text \<open>
  \<^verbatim>\<open>weekday_weekend\<close> prints the two means and draws them with \<^verbatim>\<open>result.plot(kind='bar')\<close>,
  which raises on a frame without rows.
\<close>

definition weekday_weekend :: "frame \<Rightarrow> error + line list" where
  "weekday_weekend df =
     (let result = groupby_mean Day_Type (rows df)
      in if rows df = [] then Inl TypeError
         else Inr [Text ''Weekday vs Weekend Load'', Series_by_name result])"

text \<open>
  \<^verbatim>\<open>peak_load_risk\<close> prints the series \<^verbatim>\<open>high_risk\<close>, draws it with
  \<^verbatim>\<open>high_risk.plot(kind='bar')\<close> and then returns it. The chart call raises when the series
  is empty, so that the \<^verbatim>\<open>return\<close> statement is not reached.
\<close>

definition peak_load_risk :: "frame \<Rightarrow> error + (line list \<times> (int \<times> real) list)" where
  "peak_load_risk df =
     (let hourly = groupby_mean Hour (rows df);
          threshold = fadd (mean (map snd hourly)) (std (map snd hourly));
          high_risk = filter (\<lambda>(h, v). fgt (Fin v) threshold) hourly
      in if rows df = [] then Inl TypeError
         else if high_risk = [] then Inl IndexError
         else Inr ([Text ''High Risk Peak Hours:'', Series_by_hour high_risk], high_risk))"

text \<open>
  \<^verbatim>\<open>zone_efficiency\<close>: the score \<^verbatim>\<open>100 - (v / max_load) * 40\<close> is computed on float64 scalars,
  one rounding for the quotient, one for the product and one for the difference.
\<close>

definition zone_efficiency :: "frame \<Rightarrow> error + line list" where
  "zone_efficiency df =
     (let zone_avg =
            [(''Zone1'', rnd (mean (map PowerConsumption_Zone1 (rows df)))),
             (''Zone2'', rnd (mean (map PowerConsumption_Zone2 (rows df)))),
             (''Zone3'', rnd (mean (map PowerConsumption_Zone3 (rows df))))];
          max_load = py_max (map snd zone_avg)
      in Inr (Text ''Zone Efficiency Scores:'' #
              map (\<lambda>(z, v).
                     Score z (round2 (rnd (fsub (Fin 100)
                                             (rnd (fmul (rnd (fdiv v max_load)) (Fin 40)))))))
                  zone_avg))"

definition statistical_anomaly ::
    "frame \<Rightarrow> float64 \<Rightarrow> float64 \<Rightarrow> error + (frame \<times> line list)" where
  "statistical_anomaly df mean_load std_load =
     (let z = map (\<lambda>r. fdiv (fsub (Fin (Total_Load r)) mean_load) std_load) (rows df);
          flags = map (\<lambda>v. fgt (fabs v) (Fin (5 / 2))) z
      in Inr (df\<lparr>Z_Score := Some z, Stat_Anomaly := Some flags\<rparr>,
              [Count ''Statistical Anomalies:'' (length (filter id flags))]))"

text \<open>
  \<^verbatim>\<open>demand_balancing\<close>: the two means are float64 scalars, \<^verbatim>\<open>1.15\<close> is a float literal and
  the product \<^verbatim>\<open>off_peak * 1.15\<close> is rounded to float64 before the comparison.
\<close>

definition demand_balancing :: "frame \<Rightarrow> (int \<times> real) list \<Rightarrow> error + line list" where
  "demand_balancing df high_risk =
     (let peak =
            rnd (mean (map Total_Load (filter (\<lambda>r. Peak_Type r = ''Peak'') (rows df))));
          off_peak =
            rnd (mean (map Total_Load (filter (\<lambda>r. Peak_Type r = ''Off-Peak'') (rows df))))
      in Inr (Text ''Demand Balancing Suggestions:'' #
              (if fgt peak (rnd (fmul off_peak (Fin (to_float64 (115 / 100)))))
               then [Text ''Shift load to off-peak hours''] else []) @
              (if 4 < length high_risk
               then [Text ''Stagger usage during peak hours''] else [])))"

section \<open>The menu\<close>

text \<open>
  The module-level variables: the frame, the pair returned by \<^verbatim>\<open>wastage_detection\<close> and
  \<^verbatim>\<open>high_risk_hours\<close>, which is None until choice 4 has run.
\<close>

record session =
  the_df :: frame
  the_mean_load :: float64
  the_std_load :: float64
  high_risk_hours :: "(int \<times> real) list option"

definition start :: "reading list \<Rightarrow> error + (session \<times> line list)" where
  "start csv =
     (case wastage_detection (load_and_preprocess csv) of
        Inl e \<Rightarrow> Inl e
      | Inr (d, out, m, s) \<Rightarrow>
          Inr (\<lparr>the_df = d, the_mean_load = m, the_std_load = s, high_risk_hours = None\<rparr>, out))"

definition menu_text :: "line list" where
  "menu_text =
     [Text ''SMART ENERGY ANALYTICS SYSTEM'',
      Text ''1. Peak vs Off-Peak Analysis'',
      Text ''2. Rolling Average Trend'',
      Text ''3. Weekday vs Weekend Analysis'',
      Text ''4. Peak Load Risk Identification'',
      Text ''5. Zone Efficiency Scoring'',
      Text ''6. Statistical Anomaly Detection'',
      Text ''7. Demand Balancing Strategy'',
      Text ''8. Exit'']"

text \<open>
  One pass through the body of the \<^verbatim>\<open>while True\<close> loop after the menu has been printed and
  the choice read: the session afterwards, the lines printed, and whether the loop goes on.
\<close>

definition dispatch :: "session \<Rightarrow> int \<Rightarrow> error + (session \<times> line list \<times> bool)" where
  "dispatch s choice =
     (if choice = 1 then
        (case peak_offpeak_analysis (the_df s) of
           Inl e \<Rightarrow> Inl e | Inr out \<Rightarrow> Inr (s, out, True))
      else if choice = 2 then
        (case rolling_trend (the_df s) of
           Inl e \<Rightarrow> Inl e | Inr d \<Rightarrow> Inr (s\<lparr>the_df := d\<rparr>, [], True))
      else if choice = 3 then
        (case weekday_weekend (the_df s) of
           Inl e \<Rightarrow> Inl e | Inr out \<Rightarrow> Inr (s, out, True))
      else if choice = 4 then
        (case peak_load_risk (the_df s) of
           Inl e \<Rightarrow> Inl e
         | Inr (out, high_risk) \<Rightarrow> Inr (s\<lparr>high_risk_hours := Some high_risk\<rparr>, out, True))
      else if choice = 5 then
        (case zone_efficiency (the_df s) of
           Inl e \<Rightarrow> Inl e | Inr out \<Rightarrow> Inr (s, out, True))
      else if choice = 6 then
        (case statistical_anomaly (the_df s) (the_mean_load s) (the_std_load s) of
           Inl e \<Rightarrow> Inl e | Inr (d, out) \<Rightarrow> Inr (s\<lparr>the_df := d\<rparr>, out, True))
      else if choice = 7 then
        (case high_risk_hours s of
           Some high_risk \<Rightarrow>
             (case demand_balancing (the_df s) high_risk of
                Inl e \<Rightarrow> Inl e | Inr out \<Rightarrow> Inr (s, out, True))
         | None \<Rightarrow> Inr (s, [Text ''Run Peak Load Risk first''], True))
      else if choice = 8 then Inr (s, [Text ''Exiting System... Thank You!''], False)
      else Inr (s, [Text ''Invalid choice. Try again.''], True))"

text \<open>
  The loop, followed along the choices that are typed: it ends with choice 8, and the model
  stops where the list of choices ends.
\<close>

fun main_menu :: "session \<Rightarrow> int list \<Rightarrow> error + (session \<times> line list)" where
  "main_menu s [] = Inr (s, [])"
| "main_menu s (choice # rest) =
     (case dispatch s choice of
        Inl e \<Rightarrow> Inl e
      | Inr (s', out, go_on) \<Rightarrow>
          if go_on then
            (case main_menu s' rest of
               Inl e \<Rightarrow> Inl e
             | Inr (s'', out') \<Rightarrow> Inr (s'', menu_text @ out @ out'))
          else Inr (s', menu_text @ out))"

text \<open>
  The module as a whole: load the file, run \<^verbatim>\<open>wastage_detection\<close> once, then the menu.
\<close>

definition program :: "reading list \<Rightarrow> int list \<Rightarrow> error + (session \<times> line list)" where
  "program csv choices =
     (case start csv of
        Inl e \<Rightarrow> Inl e
      | Inr (s, out) \<Rightarrow>
          (case main_menu s choices of
             Inl e \<Rightarrow> Inl e
           | Inr (s', out') \<Rightarrow> Inr (s', out @ out')))"

section \<open>Sample inputs\<close>

text \<open>A frame of four rows, at 23:00, 17:00, 18:00 and 22:00 of the first day.\<close>

definition boundary_csv :: "reading list" where
  "boundary_csv =
     [\<lparr>DateTime = 82800, PowerConsumption_Zone1 = 1, PowerConsumption_Zone2 = 1,
       PowerConsumption_Zone3 = 1\<rparr>,
      \<lparr>DateTime = 61200, PowerConsumption_Zone1 = 1, PowerConsumption_Zone2 = 1,
       PowerConsumption_Zone3 = 1\<rparr>,
      \<lparr>DateTime = 64800, PowerConsumption_Zone1 = 1, PowerConsumption_Zone2 = 1,
       PowerConsumption_Zone3 = 1\<rparr>,
      \<lparr>DateTime = 79200, PowerConsumption_Zone1 = 1, PowerConsumption_Zone2 = 1,
       PowerConsumption_Zone3 = 1\<rparr>]"

text \<open>Readings taken on the hour, from midnight of the first day on.\<close>

definition hourly_csv :: "(real \<times> real \<times> real) list \<Rightarrow> reading list" where
  "hourly_csv zs =
     map (\<lambda>(i, a, b, c). \<lparr>DateTime = 3600 * int i, PowerConsumption_Zone1 = a,
                           PowerConsumption_Zone2 = b, PowerConsumption_Zone3 = c\<rparr>)
         (enumerate 0 zs)"


text \<open>Two rows of total load 3 each: mean 3, deviation 0.\<close>

definition flat_csv :: "reading list" where
  "flat_csv = hourly_csv [(1, 1, 1), (1, 1, 1)]"



text \<open>Two rows in which every zone reads 0.\<close>

definition zero_csv :: "reading list" where
  "zero_csv = hourly_csv [(0, 0, 0), (0, 0, 0)]"


text \<open>Thirty-one rows of total load 10 each.\<close>

definition steady_csv :: "reading list" where
  "steady_csv = hourly_csv (replicate 31 (5, 3, 2))"

text \<open>
  Two days with rows at 0:00, 1:00, 2:00 and 3:00; the total loads are 0 except at 3:00,
  where they are 3 and 5.
\<close>

definition risk_csv :: "reading list" where
  "risk_csv =
     map (\<lambda>(t, a, b, c). \<lparr>DateTime = t, PowerConsumption_Zone1 = a,
                           PowerConsumption_Zone2 = b, PowerConsumption_Zone3 = c\<rparr>)
       [(0, 0, 0, 0), (3600, 0, 0, 0), (7200, 0, 0, 0), (10800, 1, 1, 1),
        (86400, 0, 0, 0), (90000, 0, 0, 0), (93600, 0, 0, 0), (97200, 2, 2, 1)]"



text \<open>Two rows, at 0:00 and 1:00, with total loads 1 and 3.\<close>

definition pair_csv :: "reading list" where
  "pair_csv = hourly_csv [(1, 0, 0), (1, 1, 1)]"

section \<open>Preprocessing\<close>

lemma derive_simps:
  "Hour (derive r) = (DateTime r div 3600) mod 24"
  "Weekday (derive r) = (DateTime r div 86400 + 3) mod 7"
  "Day_Type (derive r) =
     (if (DateTime r div 86400 + 3) mod 7 < 5 then ''Weekday'' else ''Weekend'')"
  "Total_Load (derive r) =
     PowerConsumption_Zone1 r + PowerConsumption_Zone2 r + PowerConsumption_Zone3 r"
  "Peak_Type (derive r) =
     (if between ((DateTime r div 3600) mod 24) 18 22 then ''Peak'' else ''Off-Peak'')"
  "DateTime (derive r) = DateTime r"
  "PowerConsumption_Zone1 (derive r) = PowerConsumption_Zone1 r"
  "PowerConsumption_Zone2 (derive r) = PowerConsumption_Zone2 r"
  "PowerConsumption_Zone3 (derive r) = PowerConsumption_Zone3 r"
  by (simp_all add: derive_def Let_def reading.defs row.defs)

text \<open>
  Claim C5. Every row that \<^verbatim>\<open>load_and_preprocess\<close> produces has an hour from 0 to 23 and is
  labelled Peak exactly when that hour lies in the window from 18 to 22, both ends
  included, and Off-Peak otherwise. In particular a row at hour 17 or 23 is Off-Peak and
  a row at hour 18 or 22 is Peak.
\<close>

theorem peak_type_window:
  "\<forall>r \<in> set (rows (load_and_preprocess csv)).
     0 \<le> Hour r \<and> Hour r < 24 \<and>
     Peak_Type r = (if 18 \<le> Hour r \<and> Hour r \<le> 22 then ''Peak'' else ''Off-Peak'') \<and>
     (Hour r = 17 \<longrightarrow> Peak_Type r = ''Off-Peak'') \<and>
     (Hour r = 18 \<longrightarrow> Peak_Type r = ''Peak'') \<and>
     (Hour r = 22 \<longrightarrow> Peak_Type r = ''Peak'') \<and>
     (Hour r = 23 \<longrightarrow> Peak_Type r = ''Off-Peak'')"
  by (auto simp: load_and_preprocess_def derive_simps between_def)

theorem peak_type_window_witness:
  "(\<exists>r \<in> set (rows (load_and_preprocess boundary_csv)).
      Hour r = 17 \<and> Peak_Type r = ''Off-Peak'') \<and>
   (\<exists>r \<in> set (rows (load_and_preprocess boundary_csv)).
      Hour r = 18 \<and> Peak_Type r = ''Peak'') \<and>
   (\<exists>r \<in> set (rows (load_and_preprocess boundary_csv)).
      Hour r = 22 \<and> Peak_Type r = ''Peak'') \<and>
   (\<exists>r \<in> set (rows (load_and_preprocess boundary_csv)).
      Hour r = 23 \<and> Peak_Type r = ''Off-Peak'')"
proof -
  have hours: "map Hour (rows (load_and_preprocess boundary_csv)) = [17, 18, 22, 23]"
    by (simp add: load_and_preprocess_def boundary_csv_def derive_simps)
  have mem: "\<And>h. h \<in> set [17, 18, 22, 23] \<Longrightarrow>
      \<exists>r \<in> set (rows (load_and_preprocess boundary_csv)). Hour r = h"
    unfolding hours [symmetric] by auto
  show ?thesis
    using peak_type_window [of boundary_csv] mem [of 17] mem [of 18] mem [of 22] mem [of 23]
    by (simp only: list.set) force
qed

section \<open>Mean and standard deviation\<close>

lemma mean_Fin: "xs \<noteq> [] \<Longrightarrow> mean xs = Fin (sum_list xs / real (length xs))"
  by (simp add: mean_def)

lemma std_Fin:
  "2 \<le> length xs \<Longrightarrow>
   std xs = Fin (sqrt (sum_list (map (\<lambda>x. (x - sum_list xs / real (length xs))\<^sup>2) xs)
                        / real (length xs - 1)))"
  by (simp add: std_def Let_def)

lemma count_flags: "length (filter id (map P xs)) = length (filter P xs)"
  by (induction xs) simp_all


section \<open>Wastage detection\<close>



lemma flat_rows: "map Total_Load (rows (load_and_preprocess flat_csv)) = [3, 3]"
  by (simp add: load_and_preprocess_def flat_csv_def hourly_csv_def derive_simps)



text \<open>Both detectors read the frame through its column of total loads only.\<close>

lemma wastage_detection_loads:
  assumes "map Total_Load (rows f) = xs"
  shows "wastage_detection f =
     Inr (f\<lparr>Wastage_Anomaly :=
              Some (map (\<lambda>x. fgt (Fin x) (fadd (mean xs) (fmul (Fin 2) (std xs)))) xs)\<rparr>,
          [Count ''Total Wastage Events:''
             (length (filter (\<lambda>x. fgt (Fin x) (fadd (mean xs) (fmul (Fin 2) (std xs)))) xs))],
          mean xs, std xs)"
proof -
  have w: "map (\<lambda>r. fgt (Fin (Total_Load r)) t) (rows f) = map (\<lambda>x. fgt (Fin x) t) xs" for t
    unfolding assms [symmetric] by (simp only: map_map o_def)
  show ?thesis
    unfolding wastage_detection_def Let_def assms w
    unfolding count_flags by (rule refl)
qed




section \<open>Statistical anomalies\<close>








section \<open>Rolling trend\<close>

lemma window_sum:
  fixes xs :: "real list"
  assumes "a + k \<le> length xs"
  shows "sum_list (take k (drop a xs)) = (\<Sum>j = a..<a + k. xs ! j)"
proof -
  have "sum_list (take k (drop a xs)) = (\<Sum>j = 0..<k. take k (drop a xs) ! j)"
    using assms by (simp add: sum_list_sum_nth)
  also have "\<dots> = (\<Sum>j = 0..<k. xs ! (a + j))"
    using assms by (intro sum.cong) simp_all
  also have "\<dots> = (\<Sum>j = a..<a + k. xs ! j)"
    using sum.shift_bounds_nat_ivl [of "\<lambda>j. xs ! j" 0 a k] by (simp add: add.commute)
  finally show ?thesis .
qed

lemma rolling_mean_nth:
  assumes "i < length xs" and "0 < k"
  shows "rolling_mean k xs ! i =
     (if i + 1 < k then NaN else Fin ((\<Sum>j = i + 1 - k..i. xs ! j) / real k))"
proof (cases "i + 1 < k")
  case True
  with assms show ?thesis
    by (simp add: rolling_mean_def)
next
  case False
  let ?a = "i + 1 - k"
  from False assms have le: "?a + k \<le> length xs" and ak: "?a + k = Suc i"
    by simp_all
  then have len: "length (take k (drop ?a xs)) = k"
    by simp
  with assms(2) have ne: "take k (drop ?a xs) \<noteq> []"
    by auto
  have "mean (take k (drop ?a xs)) = Fin ((\<Sum>j = ?a..<?a + k. xs ! j) / real k)"
    unfolding mean_Fin [OF ne] len window_sum [OF le] ..
  also have "{?a..<?a + k} = {?a..i}"
    unfolding ak by (rule atLeastLessThanSuc_atLeastAtMost)
  finally show ?thesis
    using False assms(1) by (simp add: rolling_mean_def)
qed

lemma length_rolling_mean: "length (rolling_mean k xs) = length xs"
  by (simp add: rolling_mean_def)

lemma constant_window:
  fixes xs :: "real list"
  assumes "\<forall>x \<in> set xs. x = c" and "i < length xs" and "a \<le> i"
  shows "(\<Sum>j = a..i. xs ! j) = real (Suc i - a) * c"
proof -
  have "(\<Sum>j = a..i. xs ! j) = (\<Sum>j = a..i. c)"
    using assms(1,2) by (intro sum.cong) simp_all
  then show ?thesis
    using assms(3) by (simp add: Suc_diff_le)
qed

text \<open>
  Claim C6. \<^verbatim>\<open>rolling_trend\<close> assigns two columns as long as the frame. The entry of
  \<^verbatim>\<open>Rolling_7\<close> at index i is NaN (no value, which is not the number zero) for i from 0 to 5
  and otherwise the sum of the total loads at the indices i - 6 to i divided by 7; the
  entry of \<^verbatim>\<open>Rolling_30\<close> is NaN for i from 0 to 28 and otherwise the sum over the indices
  i - 29 to i divided by 30. An entry thus reads the current row and rows before it only.
  When every total load equals c, every entry that has a value is c.
\<close>

theorem rolling_trend_trailing_means:
  assumes "xs = map Total_Load (rows f)"
  shows "\<exists>r7 r30.
           rolling_trend f = Inr (f\<lparr>Rolling_7 := Some r7, Rolling_30 := Some r30\<rparr>) \<and>
           length r7 = length xs \<and> length r30 = length xs \<and>
           (\<forall>i < length xs.
              r7 ! i = (if i < 6 then NaN else Fin ((\<Sum>j = i - 6..i. xs ! j) / 7)) \<and>
              r30 ! i = (if i < 29 then NaN else Fin ((\<Sum>j = i - 29..i. xs ! j) / 30))) \<and>
           (\<forall>c. (\<forall>x \<in> set xs. x = c) \<longrightarrow>
              (\<forall>i < length xs. (6 \<le> i \<longrightarrow> r7 ! i = Fin c) \<and> (29 \<le> i \<longrightarrow> r30 ! i = Fin c)))"
proof -
  let ?r7 = "rolling_mean 7 xs" and ?r30 = "rolling_mean 30 xs"
  have 1: "rolling_trend f = Inr (f\<lparr>Rolling_7 := Some ?r7, Rolling_30 := Some ?r30\<rparr>)"
    by (simp add: rolling_trend_def assms)
  have 7: "?r7 ! i = (if i < 6 then NaN else Fin ((\<Sum>j = i - 6..i. xs ! j) / 7))"
    if "i < length xs" for i
    using rolling_mean_nth [OF that, of 7] by simp
  have 30: "?r30 ! i = (if i < 29 then NaN else Fin ((\<Sum>j = i - 29..i. xs ! j) / 30))"
    if "i < length xs" for i
    using rolling_mean_nth [OF that, of 30] by simp
  have c7: "?r7 ! i = Fin c" if "\<forall>x \<in> set xs. x = c" "i < length xs" "6 \<le> i" for c i
    using that 7 [OF that(2)] constant_window [OF that(1,2), of "i - 6"] by simp
  have c30: "?r30 ! i = Fin c" if "\<forall>x \<in> set xs. x = c" "i < length xs" "29 \<le> i" for c i
    using that 30 [OF that(2)] constant_window [OF that(1,2), of "i - 29"] by simp
  show ?thesis
    using 1 7 30 c7 c30 length_rolling_mean [of 7 xs] length_rolling_mean [of 30 xs]
    by (intro exI [of _ ?r7] exI [of _ ?r30]) blast
qed


lemma hourly_csv_zones:
  "r \<in> set (hourly_csv zs) \<Longrightarrow>
   (PowerConsumption_Zone1 r, PowerConsumption_Zone2 r, PowerConsumption_Zone3 r) \<in> set zs"
  by (auto simp: hourly_csv_def in_set_enumerate_eq) (metis nth_mem)

lemma steady_loads:
  "length (map Total_Load (rows (load_and_preprocess steady_csv))) = 31"
  "\<forall>x \<in> set (map Total_Load (rows (load_and_preprocess steady_csv))). x = 10"
proof -
  show "length (map Total_Load (rows (load_and_preprocess steady_csv))) = 31"
    by (simp add: load_and_preprocess_def steady_csv_def hourly_csv_def)
  have "Total_Load (derive r) = 10" if "r \<in> set steady_csv" for r
    using hourly_csv_zones [OF that [unfolded steady_csv_def]] by (simp add: derive_simps)
  then show "\<forall>x \<in> set (map Total_Load (rows (load_and_preprocess steady_csv))). x = 10"
    by (auto simp: load_and_preprocess_def)
qed

theorem rolling_trend_trailing_means_witness:
  "\<exists>r7 r30.
     rolling_trend (load_and_preprocess steady_csv) =
       Inr ((load_and_preprocess steady_csv)\<lparr>Rolling_7 := Some r7, Rolling_30 := Some r30\<rparr>) \<and>
     length r7 = 31 \<and> length r30 = 31 \<and>
     r7 ! 0 = NaN \<and> r7 ! 5 = NaN \<and> r7 ! 6 = Fin 10 \<and> r7 ! 30 = Fin 10 \<and>
     r30 ! 0 = NaN \<and> r30 ! 28 = NaN \<and> r30 ! 29 = Fin 10 \<and> r30 ! 30 = Fin 10"
proof -
  let ?F = "load_and_preprocess steady_csv"
  from rolling_trend_trailing_means [OF refl, of ?F] obtain r7 r30
    where r: "rolling_trend ?F = Inr (?F\<lparr>Rolling_7 := Some r7, Rolling_30 := Some r30\<rparr>)"
      and len: "length r7 = length (map Total_Load (rows ?F))"
        "length r30 = length (map Total_Load (rows ?F))"
      and early: "\<forall>i < length (map Total_Load (rows ?F)).
          r7 ! i = (if i < 6 then NaN
                    else Fin ((\<Sum>j = i - 6..i. map Total_Load (rows ?F) ! j) / 7)) \<and>
          r30 ! i = (if i < 29 then NaN
                     else Fin ((\<Sum>j = i - 29..i. map Total_Load (rows ?F) ! j) / 30))"
      and const: "\<forall>c. (\<forall>x \<in> set (map Total_Load (rows ?F)). x = c) \<longrightarrow>
          (\<forall>i < length (map Total_Load (rows ?F)).
             (6 \<le> i \<longrightarrow> r7 ! i = Fin c) \<and> (29 \<le> i \<longrightarrow> r30 ! i = Fin c))"
    by blast
  from const steady_loads(2)
  have late: "\<forall>i < 31. (6 \<le> i \<longrightarrow> r7 ! i = Fin 10) \<and> (29 \<le> i \<longrightarrow> r30 ! i = Fin 10)"
    unfolding steady_loads(1) by blast
  from early have nan: "r7 ! 0 = NaN" "r7 ! 5 = NaN" "r30 ! 0 = NaN" "r30 ! 28 = NaN"
    unfolding steady_loads(1) by simp_all
  from late have ten: "r7 ! 6 = Fin 10" "r7 ! 30 = Fin 10" "r30 ! 29 = Fin 10" "r30 ! 30 = Fin 10"
    by simp_all
  show ?thesis
    using r len [unfolded steady_loads(1)] nan ten by blast
qed

section \<open>Rounding to float64\<close>

lemma rint_near: "\<bar>real_of_int (rint x) - x\<bar> \<le> 1 / 2"
proof -
  have "of_int \<lfloor>x\<rfloor> \<le> x" "x < of_int \<lfloor>x\<rfloor> + 1"
    by linarith+
  then show ?thesis
    unfolding rint_def Let_def by (auto simp: abs_le_iff)
qed

lemma rint_of_int: "rint (of_int n) = n"
  by (simp add: rint_def)

text \<open>The nearest float64, once the binary exponent of the argument is known.\<close>

lemma to_float64_zero: "to_float64 0 = 0"
  by (simp add: to_float64_def)



text \<open>The relative error of one rounding is at most \<open>2 ^ - 53\<close>.\<close>

lemma to_float64_error: "\<bar>to_float64 x - x\<bar> \<le> \<bar>x\<bar> / 2 ^ 53"
proof (cases "x = 0")
  case True
  then show ?thesis by (simp add: to_float64_def)
next
  case False
  define e where "e = \<lfloor>log 2 \<bar>x\<bar>\<rfloor>"
  define u :: real where "u = 2 powr (of_int e - 52)"
  have u: "0 < u"
    unfolding u_def by simp
  have val: "to_float64 x = of_int (rint (x / u)) * u"
    using False unfolding to_float64_def Let_def u_def e_def by simp
  have "of_int e \<le> log 2 \<bar>x\<bar>"
    unfolding e_def by simp
  then have low: "2 powr of_int e \<le> \<bar>x\<bar>"
    using False by (simp add: le_log_iff)
  have "2 powr of_int e = u * 2 ^ 52"
    unfolding u_def by (simp add: powr_diff)
  with low have ux: "u * 2 ^ 52 \<le> \<bar>x\<bar>"
    by simp
  have "of_int (rint (x / u)) * u - x = (of_int (rint (x / u)) - x / u) * u"
    using u by (simp add: field_simps)
  then have "\<bar>of_int (rint (x / u)) * u - x\<bar> = \<bar>of_int (rint (x / u)) - x / u\<bar> * u"
    using u by (simp only: abs_mult abs_of_pos)
  also have "\<dots> \<le> 1 / 2 * u"
    using rint_near [of "x / u"] u by (intro mult_right_mono) simp_all
  also have "\<dots> \<le> \<bar>x\<bar> / 2 ^ 53"
    using ux by simp
  finally show ?thesis
    unfolding val .
qed



lemma to_float64_within:
  assumes "\<bar>x\<bar> \<le> B"
  shows "\<bar>to_float64 x - x\<bar> \<le> B / 9007199254740992"
proof -
  have "\<bar>to_float64 x - x\<bar> \<le> \<bar>x\<bar> / 9007199254740992"
    using to_float64_error [of x] by simp
  with assms show ?thesis
    by linarith
qed


lemma to_float64_pos: "0 < x \<Longrightarrow> 0 < to_float64 x"
  using to_float64_within [of x x] by linarith


section \<open>Zone efficiency\<close>


lemma zero_columns:
  "map PowerConsumption_Zone1 (rows (load_and_preprocess zero_csv)) = [0, 0]"
  "map PowerConsumption_Zone2 (rows (load_and_preprocess zero_csv)) = [0, 0]"
  "map PowerConsumption_Zone3 (rows (load_and_preprocess zero_csv)) = [0, 0]"
  by (simp_all add: load_and_preprocess_def zero_csv_def hourly_csv_def derive_simps)


lemma py_max_three: "py_max [Fin a, Fin b, Fin c] = Fin (max a (max b c))"
  by (simp add: max_def)

lemma zone_efficiency_columns:
  assumes "rnd (mean (map PowerConsumption_Zone1 (rows f))) = a"
    and "rnd (mean (map PowerConsumption_Zone2 (rows f))) = b"
    and "rnd (mean (map PowerConsumption_Zone3 (rows f))) = c"
  shows "zone_efficiency f =
     Inr [Text ''Zone Efficiency Scores:'',
          Score ''Zone1''
            (round2 (rnd (fsub (Fin 100) (rnd (fmul (rnd (fdiv a (py_max [a, b, c]))) (Fin 40)))))),
          Score ''Zone2''
            (round2 (rnd (fsub (Fin 100) (rnd (fmul (rnd (fdiv b (py_max [a, b, c]))) (Fin 40)))))),
          Score ''Zone3''
            (round2 (rnd (fsub (Fin 100) (rnd (fmul (rnd (fdiv c (py_max [a, b, c]))) (Fin 40))))))]"
  unfolding zone_efficiency_def Let_def assms by simp






text \<open>
  Claim C9, as the code has it. On a frame with at least one row whose three zone means
  are all zero \<^verbatim>\<open>zone_efficiency\<close> does not fail: each division is 0 / 0, which numpy
  evaluates to NaN, and the score reported for every zone is NaN.
\<close>

theorem zone_efficiency_all_zero:
  assumes "rows f \<noteq> []"
    and "sum_list (map PowerConsumption_Zone1 (rows f)) / real (length (rows f)) = 0"
    and "sum_list (map PowerConsumption_Zone2 (rows f)) / real (length (rows f)) = 0"
    and "sum_list (map PowerConsumption_Zone3 (rows f)) / real (length (rows f)) = 0"
  shows "zone_efficiency f =
           Inr [Text ''Zone Efficiency Scores:'', Score ''Zone1'' NaN, Score ''Zone2'' NaN,
                Score ''Zone3'' NaN]"
proof -
  have ma: "rnd (mean (map PowerConsumption_Zone1 (rows f))) = Fin 0"
    and mb: "rnd (mean (map PowerConsumption_Zone2 (rows f))) = Fin 0"
    and mc: "rnd (mean (map PowerConsumption_Zone3 (rows f))) = Fin 0"
    using assms(1) by (simp_all add: mean_def assms(2,3,4) to_float64_zero)
  show ?thesis
    unfolding zone_efficiency_columns [OF ma mb mc] py_max_three
    by (simp add: fsub_def)
qed

theorem zone_efficiency_all_zero_witness:
  "rows (load_and_preprocess zero_csv) \<noteq> [] \<and>
   zone_efficiency (load_and_preprocess zero_csv) =
     Inr [Text ''Zone Efficiency Scores:'', Score ''Zone1'' NaN, Score ''Zone2'' NaN,
          Score ''Zone3'' NaN]"
proof -
  let ?Z = "load_and_preprocess zero_csv"
  have len: "length (rows ?Z) = 2"
    using arg_cong [OF zero_columns(1), of length] by simp
  then have ne: "rows ?Z \<noteq> []"
    by auto
  have a: "sum_list (map PowerConsumption_Zone1 (rows ?Z)) / real (length (rows ?Z)) = 0"
    and b: "sum_list (map PowerConsumption_Zone2 (rows ?Z)) / real (length (rows ?Z)) = 0"
    and c: "sum_list (map PowerConsumption_Zone3 (rows ?Z)) / real (length (rows ?Z)) = 0"
    unfolding zero_columns len by simp_all
  show ?thesis
    using ne zone_efficiency_all_zero [OF ne a b c] by (intro conjI)
qed

text \<open>
  The claim as stated fails on two rows of zero readings: three NaN scores are reported
  and nothing is raised.
\<close>

theorem zone_efficiency_all_zero_counterexample:
  "zone_efficiency (load_and_preprocess zero_csv) =
     Inr [Text ''Zone Efficiency Scores:'', Score ''Zone1'' NaN, Score ''Zone2'' NaN,
          Score ''Zone3'' NaN] \<and>
   zone_efficiency (load_and_preprocess zero_csv) \<noteq> Inl DegenerateInputError"
proof -
  have "rnd (mean [0, 0]) = Fin 0"
    by (simp add: mean_def to_float64_zero)
  then have "zone_efficiency (load_and_preprocess zero_csv) =
     Inr [Text ''Zone Efficiency Scores:'', Score ''Zone1'' NaN, Score ''Zone2'' NaN,
          Score ''Zone3'' NaN]"
    unfolding zone_efficiency_def Let_def zero_columns by (simp add: fsub_def)
  then show ?thesis
    by simp
qed

section \<open>Demand balancing\<close>







section \<open>The menu loop\<close>

lemma start_fresh:
  "\<exists>s out. start csv = Inr (s, out) \<and> high_risk_hours s = None"
  by (simp add: start_def wastage_detection_def Let_def)

lemma dispatch_7_fresh:
  "high_risk_hours s = None \<Longrightarrow>
   dispatch s 7 = Inr (s, [Text ''Run Peak Load Risk first''], True)"
  by (simp add: dispatch_def)

text \<open>
  Claim C8, as the code has it. In a fresh session, that is right after the file has been
  loaded and \<^verbatim>\<open>wastage_detection\<close> has run, \<^verbatim>\<open>high_risk_hours\<close> is None and choice 7 raises
  nothing: it prints the notice to run the peak load risk first, prints no recommendation
  and leaves the session as it was, and the loop goes on.
\<close>

theorem balancing_before_risk_prints_notice:
  "\<exists>s out. start csv = Inr (s, out) \<and> program csv [] = Inr (s, out) \<and>
     high_risk_hours s = None \<and>
     dispatch s 7 = Inr (s, [Text ''Run Peak Load Risk first''], True) \<and>
     program csv [7] = Inr (s, out @ menu_text @ [Text ''Run Peak Load Risk first''])"
proof -
  from start_fresh obtain s0 out0
    where s0: "start csv = Inr (s0, out0)" and h0: "high_risk_hours s0 = None"
    by blast
  show ?thesis
    using s0 h0 dispatch_7_fresh [OF h0] by (simp add: program_def)
qed

theorem balancing_before_risk_prints_notice_witness:
  "\<exists>s out. start flat_csv = Inr (s, out) \<and> program flat_csv [] = Inr (s, out) \<and>
     high_risk_hours s = None \<and>
     dispatch s 7 = Inr (s, [Text ''Run Peak Load Risk first''], True) \<and>
     program flat_csv [7] = Inr (s, out @ menu_text @ [Text ''Run Peak Load Risk first''])"
  using balancing_before_risk_prints_notice [of flat_csv] by simp

text \<open>
  The claim as stated fails in the session of a two-row file whose first choice is 7: the
  program returns, having printed the notice.
\<close>

theorem balancing_before_risk_counterexample:
  "program flat_csv [7] =
     Inr (\<lparr>the_df = (load_and_preprocess flat_csv)\<lparr>Wastage_Anomaly := Some [False, False]\<rparr>,
           the_mean_load = Fin 3, the_std_load = Fin 0, high_risk_hours = None\<rparr>,
          [Count ''Total Wastage Events:'' 0] @ menu_text @
          [Text ''Run Peak Load Risk first'']) \<and>
   program flat_csv [7] \<noteq> Inl PrecomputationRequiredError"
proof -
  have w: "wastage_detection (load_and_preprocess flat_csv) =
     Inr ((load_and_preprocess flat_csv)\<lparr>Wastage_Anomaly := Some [False, False]\<rparr>,
          [Count ''Total Wastage Events:'' 0], Fin 3, Fin 0)"
    unfolding wastage_detection_loads [OF flat_rows] by (simp add: mean_def std_def)
  have "program flat_csv [7] =
     Inr (\<lparr>the_df = (load_and_preprocess flat_csv)\<lparr>Wastage_Anomaly := Some [False, False]\<rparr>,
           the_mean_load = Fin 3, the_std_load = Fin 0, high_risk_hours = None\<rparr>,
          [Count ''Total Wastage Events:'' 0] @ menu_text @
          [Text ''Run Peak Load Risk first''])"
    unfolding program_def start_def w by (simp add: dispatch_def)
  then show ?thesis
    by simp
qed

section \<open>Peak load risk\<close>

lemma fadd_NaN_right: "fadd a NaN = NaN"
  by (cases a) simp_all

lemma fgt_NaN_right: "fgt a NaN = False"
  by (cases a) simp_all

lemma ascending_keys:
  fixes hs :: "'k::linorder list"
  assumes "sorted_wrt (<) hs" and "set hs = key ` set rs"
  shows "sort (remdups (map key rs)) = hs"
proof (rule sorted_distinct_set_unique)
  show "sorted (sort (remdups (map key rs)))" "distinct (sort (remdups (map key rs)))"
    by simp_all
  show "sorted hs" "distinct hs"
    using assms(1) by (simp_all add: strict_sorted_iff)
  show "set (sort (remdups (map key rs))) = set hs"
    using assms(2) by simp
qed

lemma groupby_mean_keys:
  fixes hs :: "'k::linorder list"
  assumes "sorted_wrt (<) hs" and "set hs = key ` set rs"
  shows "groupby_mean key rs =
     map (\<lambda>k. (k, sum_list (map Total_Load (filter (\<lambda>r. key r = k) rs)) /
                    real (length (filter (\<lambda>r. key r = k) rs)))) hs"
  unfolding groupby_mean_def ascending_keys [OF assms] Let_def by simp

text \<open>
  What \<^verbatim>\<open>peak_load_risk\<close> does on every frame. Let hs be the hours that occur, in
  ascending order, avg h the mean total load of the rows of hour h, and risky the hours
  whose avg is strictly above the mean of the avg values plus their sample standard
  deviation (no hour when there are fewer than two). When risky is not empty, the hours of
  risky are printed and returned with their avg, in ascending order; when it is empty the
  chart call raises.
\<close>

lemma peak_load_risk_result:
  assumes "sorted_wrt (<) hs" and "set hs = Hour ` set (rows f)"
    and "avg = (\<lambda>h. sum_list (map Total_Load (filter (\<lambda>r. Hour r = h) (rows f))) /
                      real (length (filter (\<lambda>r. Hour r = h) (rows f))))"
    and "\<mu> = sum_list (map avg hs) / real (length hs)"
    and "\<sigma> = sqrt (sum_list (map (\<lambda>h. (avg h - \<mu>)\<^sup>2) hs) / real (length hs - 1))"
    and "risky = (if 2 \<le> length hs then filter (\<lambda>h. \<mu> + \<sigma> < avg h) hs else [])"
  shows "peak_load_risk f =
           (if rows f = [] then Inl TypeError
            else if risky = [] then Inl IndexError
            else Inr ([Text ''High Risk Peak Hours:'',
                       Series_by_hour (map (\<lambda>h. (h, avg h)) risky)],
                      map (\<lambda>h. (h, avg h)) risky))"
    and "sorted_wrt (<) risky" and "set risky \<subseteq> Hour ` set (rows f)"
proof -
  let ?hourly = "map (\<lambda>h. (h, avg h)) hs"
  have hourly: "groupby_mean Hour (rows f) = ?hourly"
    unfolding groupby_mean_keys [OF assms(1,2)] assms(3) ..
  have vals: "map snd ?hourly = map avg hs"
    by (simp add: o_def)
  have high: "filter (\<lambda>(h, v). fgt (Fin v) (fadd (mean (map avg hs)) (std (map avg hs)))) ?hourly
      = map (\<lambda>h. (h, avg h)) risky"
  proof (cases "2 \<le> length hs")
    case True
    then have ne: "map avg hs \<noteq> []" and len: "2 \<le> length (map avg hs)"
      by auto
    have m: "mean (map avg hs) = Fin \<mu>"
      unfolding mean_Fin [OF ne] assms(4) by simp
    have s: "std (map avg hs) = Fin \<sigma>"
      unfolding std_Fin [OF len] assms(4,5) by (simp add: o_def)
    show ?thesis
      unfolding m s assms(6) using True by (simp add: filter_map o_def)
  next
    case False
    then have "std (map avg hs) = NaN"
      by (simp add: std_def)
    then show ?thesis
      unfolding assms(6) using False by (simp add: fadd_NaN_right fgt_NaN_right)
  qed
  show "peak_load_risk f =
           (if rows f = [] then Inl TypeError
            else if risky = [] then Inl IndexError
            else Inr ([Text ''High Risk Peak Hours:'',
                       Series_by_hour (map (\<lambda>h. (h, avg h)) risky)],
                      map (\<lambda>h. (h, avg h)) risky))"
    unfolding peak_load_risk_def Let_def hourly vals high by simp
  show "sorted_wrt (<) risky"
    unfolding assms(6) using assms(1) by (simp add: sorted_wrt_filter)
  show "set risky \<subseteq> Hour ` set (rows f)"
    unfolding assms(6) assms(2) [symmetric] by auto
qed

lemma risk_hours: "map Hour (rows (load_and_preprocess risk_csv)) = [0, 1, 2, 3, 0, 1, 2, 3]"
  by (simp add: load_and_preprocess_def risk_csv_def derive_simps)

lemma risk_groups:
  "map Total_Load (filter (\<lambda>r. Hour r = 0) (rows (load_and_preprocess risk_csv))) = [0, 0]"
  "map Total_Load (filter (\<lambda>r. Hour r = 1) (rows (load_and_preprocess risk_csv))) = [0, 0]"
  "map Total_Load (filter (\<lambda>r. Hour r = 2) (rows (load_and_preprocess risk_csv))) = [0, 0]"
  "map Total_Load (filter (\<lambda>r. Hour r = 3) (rows (load_and_preprocess risk_csv))) = [3, 5]"
  by (simp_all add: load_and_preprocess_def risk_csv_def derive_simps)

text \<open>On the two sample days the hour 3:00, of mean load 4, is returned.\<close>

lemma peak_load_risk_returns_hour:
  "peak_load_risk (load_and_preprocess risk_csv) =
     Inr ([Text ''High Risk Peak Hours:'', Series_by_hour [(3, 4)]], [(3, 4)])"
proof -
  let ?F = "load_and_preprocess risk_csv"
  have asc: "sorted_wrt (<) [0, 1, 2, 3 :: int]"
    by simp
  have "Hour ` set (rows ?F) = set (map Hour (rows ?F))"
    by simp
  also have "\<dots> = set [0, 1, 2, 3]"
    unfolding risk_hours by auto
  finally have keys: "set [0, 1, 2, 3] = Hour ` set (rows ?F)"
    by (rule sym)
  have n: "length (filter (\<lambda>r. Hour r = 0) (rows ?F)) = 2"
    "length (filter (\<lambda>r. Hour r = 1) (rows ?F)) = 2"
    "length (filter (\<lambda>r. Hour r = 2) (rows ?F)) = 2"
    "length (filter (\<lambda>r. Hour r = 3) (rows ?F)) = 2"
    using risk_groups [THEN arg_cong, of length] by simp_all
  have ne: "rows ?F \<noteq> []"
    using arg_cong [OF risk_hours, of length] by auto
  show ?thesis
    using peak_load_risk_result(1) [OF asc keys refl refl refl refl] ne
    by (simp add: risk_groups n power2_eq_square)
qed

lemma pair_hourly:
  "rows (load_and_preprocess pair_csv) \<noteq> []"
  "groupby_mean Hour (rows (load_and_preprocess pair_csv)) = [(0, 1), (1, 3)]"
  by (simp_all add: load_and_preprocess_def pair_csv_def hourly_csv_def derive_simps
      groupby_mean_def)

text \<open>
  Claim C2, where the code fails it. Two rows at 0:00 and 1:00 with total loads 1 and 3
  give the hourly means 1 and 3 and the threshold 2 plus the square root of 2. No hour
  is above the threshold, so the hours to return are none; \<^verbatim>\<open>peak_load_risk\<close> computes and
  prints this empty series, but the chart call that follows raises \<^verbatim>\<open>IndexError\<close> and the
  \<^verbatim>\<open>return\<close> statement is not reached.
\<close>

theorem peak_load_risk_no_hour_raises:
  "groupby_mean Hour (rows (load_and_preprocess pair_csv)) = [(0, 1), (1, 3)] \<and>
   fadd (mean [1, 3]) (std [1, 3]) = Fin (2 + sqrt 2) \<and>
   \<not> 2 + sqrt 2 < 1 \<and> \<not> 2 + sqrt 2 < 3 \<and>
   peak_load_risk (load_and_preprocess pair_csv) = Inl IndexError"
proof -
  have t: "fadd (mean [1, 3]) (std [1, 3]) = Fin (2 + sqrt 2)"
    by (simp add: mean_def std_def)
  have root: "1 < sqrt 2"
    by simp
  then have a: "\<not> 2 + sqrt 2 < 1" and b: "\<not> 2 + sqrt 2 < 3"
    by linarith+
  have f1: "\<not> fgt (Fin 1) (Fin (2 + sqrt 2))" and f3: "\<not> fgt (Fin 3) (Fin (2 + sqrt 2))"
    unfolding fgt.simps by (rule a, rule b)
  have none: "filter (\<lambda>(h, v). fgt (Fin v) (Fin (2 + sqrt 2))) [(0, 1), (1, 3 :: real)] = []"
    by (simp only: filter.simps case_prod_conv f1 f3 if_False)
  have "peak_load_risk (load_and_preprocess pair_csv) = Inl IndexError"
    unfolding peak_load_risk_def Let_def pair_hourly(2) using pair_hourly(1)
    by (simp only: list.map snd_conv t none if_False) simp
  with pair_hourly(2) t a b show ?thesis
    by (intro conjI)
qed

end
